theory Spec2Isabelle
  imports Main "HOL-Library.Sublist"
begin

section \<open>The stored schema\<close>

text \<open>
  The migration declares four relations. A \<open>UUID\<close> is an opaque key and a
  \<open>TIMESTAMP WITH TIME ZONE\<close> a point on a linear clock; both are natural numbers
  here. A nullable \<open>TEXT\<close> or \<open>INTEGER\<close> column is an \<open>option\<close>, a \<open>NOT NULL\<close> column
  is the bare type. The values of \<open>gen_random_uuid()\<close> and \<open>now()\<close> are arguments of
  the operations that use them.
\<close>

type_synonym uuid = nat
type_synonym timestamptz = nat

datatype app_role = student | admin

record profile =
  p_id :: uuid
  p_user_id :: uuid
  p_first_name :: "string option"
  p_last_name :: "string option"
  p_phone :: "string option"
  p_avatar_url :: "string option"
  p_created_at :: timestamptz
  p_updated_at :: timestamptz

record user_role =
  r_id :: uuid
  r_user_id :: uuid
  r_role :: app_role
  r_created_at :: timestamptz

record course =
  c_id :: uuid
  c_name :: string
  c_description :: "string option"
  c_duration :: "string option"
  c_availability :: bool
  c_max_students :: "int option"
  c_created_at :: timestamptz
  c_updated_at :: timestamptz

record course_application =
  a_id :: uuid
  a_student_id :: uuid
  a_course_id :: uuid
  a_status :: string
  a_applied_at :: timestamptz
  a_updated_at :: timestamptz

text \<open>
  The store holds the four tables in insertion order and the keys of \<open>auth.users\<close>,
  which the foreign keys and the signup trigger refer to.
\<close>

record store =
  auth_users :: "uuid list"
  profiles :: "profile list"
  user_roles :: "user_role list"
  courses :: "course list"
  course_applications :: "course_application list"

datatype error = PolicyDenied | ConstraintViolation | NumericValueOutOfRange | TypeError

section \<open>Role resolver and row-level security\<close>

text \<open>
  \<open>has_role\<close> is the \<open>SECURITY DEFINER\<close> function of the migration: an \<open>EXISTS\<close> over
  \<open>user_roles\<close>. The caller \<open>auth.uid()\<close> is \<open>None\<close> for an anonymous request; a
  comparison with \<open>NULL\<close> is not true, so no row of \<open>user_roles\<close> matches.
\<close>

definition has_role :: "store \<Rightarrow> uuid option \<Rightarrow> app_role \<Rightarrow> bool" where
  "has_role s user_id' role' =
     (case user_id' of
        None \<Rightarrow> False
      | Some u \<Rightarrow> (\<exists>r \<in> set (user_roles s). r_user_id r = u \<and> r_role r = role'))"

text \<open>
  A policy is what \<open>CREATE POLICY\<close> records: the command it is for, and its \<open>USING\<close>
  and \<open>WITH CHECK\<close> expressions over the store, the caller and the row.
\<close>

datatype command = FOR_SELECT | FOR_INSERT | FOR_UPDATE | FOR_DELETE | FOR_ALL

type_synonym 'row expr = "store \<Rightarrow> uuid option \<Rightarrow> 'row \<Rightarrow> bool"

record 'row policy =
  pol_name :: string
  pol_cmd :: command
  pol_using :: "'row expr option"
  pol_with_check :: "'row expr option"

text \<open>
  All policies of the migration are permissive: a row passes when some policy for the
  command (or \<open>FOR ALL\<close>) accepts it, and no applicable policy means no row passes.
  A policy without \<open>WITH CHECK\<close> checks new rows with its \<open>USING\<close> expression.
\<close>

definition applies :: "command \<Rightarrow> 'row policy \<Rightarrow> bool" where
  "applies cmd p = (pol_cmd p = cmd \<or> pol_cmd p = FOR_ALL)"

definition using_ok :: "'row policy list \<Rightarrow> command \<Rightarrow> 'row expr" where
  "using_ok ps cmd s uid row =
     (\<exists>p \<in> set (filter (applies cmd) ps).
        case pol_using p of Some e \<Rightarrow> e s uid row | None \<Rightarrow> False)"

definition with_check_ok :: "'row policy list \<Rightarrow> command \<Rightarrow> 'row expr" where
  "with_check_ok ps cmd s uid row =
     (\<exists>p \<in> set (filter (applies cmd) ps).
        case pol_with_check p of
          Some e \<Rightarrow> e s uid row
        | None \<Rightarrow> (case pol_using p of Some e \<Rightarrow> e s uid row | None \<Rightarrow> False))"

text \<open>
  An \<open>UPDATE\<close> or \<open>DELETE\<close> whose \<open>WHERE\<close> clause reads a column also needs the row
  to pass the \<open>SELECT\<close> policies; a row that does not pass is skipped without error.
  The row an \<open>UPDATE\<close> writes must pass the checks of both commands.
\<close>

definition row_visible :: "'row policy list \<Rightarrow> command \<Rightarrow> 'row expr" where
  "row_visible ps cmd s uid row =
     (using_ok ps FOR_SELECT s uid row \<and> using_ok ps cmd s uid row)"

definition new_row_ok :: "'row policy list \<Rightarrow> 'row expr" where
  "new_row_ok ps s uid row =
     (using_ok ps FOR_SELECT s uid row \<and> with_check_ok ps FOR_UPDATE s uid row)"

subsection \<open>The policies of the migration\<close>

definition profiles_policies :: "profile policy list" where
  "profiles_policies =
     [\<lparr>pol_name = ''Users can view their own profile'', pol_cmd = FOR_SELECT,
       pol_using = Some (\<lambda>s uid row. uid = Some (p_user_id row)), pol_with_check = None\<rparr>,
      \<lparr>pol_name = ''Users can update their own profile'', pol_cmd = FOR_UPDATE,
       pol_using = Some (\<lambda>s uid row. uid = Some (p_user_id row)), pol_with_check = None\<rparr>,
      \<lparr>pol_name = ''Users can insert their own profile'', pol_cmd = FOR_INSERT,
       pol_using = None, pol_with_check = Some (\<lambda>s uid row. uid = Some (p_user_id row))\<rparr>,
      \<lparr>pol_name = ''Admins can view all profiles'', pol_cmd = FOR_SELECT,
       pol_using = Some (\<lambda>s uid row. has_role s uid admin), pol_with_check = None\<rparr>]"

definition user_roles_policies :: "user_role policy list" where
  "user_roles_policies =
     [\<lparr>pol_name = ''Users can view their own roles'', pol_cmd = FOR_SELECT,
       pol_using = Some (\<lambda>s uid row. uid = Some (r_user_id row)), pol_with_check = None\<rparr>,
      \<lparr>pol_name = ''Admins can manage all roles'', pol_cmd = FOR_ALL,
       pol_using = Some (\<lambda>s uid row. has_role s uid admin), pol_with_check = None\<rparr>]"

definition courses_policies :: "course policy list" where
  "courses_policies =
     [\<lparr>pol_name = ''Anyone can view available courses'', pol_cmd = FOR_SELECT,
       pol_using = Some (\<lambda>s uid row. c_availability row = True), pol_with_check = None\<rparr>,
      \<lparr>pol_name = ''Admins can manage courses'', pol_cmd = FOR_ALL,
       pol_using = Some (\<lambda>s uid row. has_role s uid admin), pol_with_check = None\<rparr>]"

definition course_applications_policies :: "course_application policy list" where
  "course_applications_policies =
     [\<lparr>pol_name = ''Students can view their own applications'', pol_cmd = FOR_SELECT,
       pol_using = Some (\<lambda>s uid row. uid = Some (a_student_id row)), pol_with_check = None\<rparr>,
      \<lparr>pol_name = ''Students can create applications'', pol_cmd = FOR_INSERT,
       pol_using = None, pol_with_check = Some (\<lambda>s uid row. uid = Some (a_student_id row))\<rparr>,
      \<lparr>pol_name = ''Students can update their own applications'', pol_cmd = FOR_UPDATE,
       pol_using = Some (\<lambda>s uid row. uid = Some (a_student_id row)), pol_with_check = None\<rparr>,
      \<lparr>pol_name = ''Admins can manage all applications'', pol_cmd = FOR_ALL,
       pol_using = Some (\<lambda>s uid row. has_role s uid admin), pol_with_check = None\<rparr>]"

subsection \<open>Reads\<close>

text \<open>A \<open>SELECT\<close> returns the rows that pass the \<open>SELECT\<close> policies of the table.\<close>

definition select_profiles :: "store \<Rightarrow> uuid option \<Rightarrow> profile list" where
  "select_profiles s uid = filter (using_ok profiles_policies FOR_SELECT s uid) (profiles s)"

definition select_courses :: "store \<Rightarrow> uuid option \<Rightarrow> course list" where
  "select_courses s uid = filter (using_ok courses_policies FOR_SELECT s uid) (courses s)"

definition select_course_applications :: "store \<Rightarrow> uuid option \<Rightarrow> course_application list" where
  "select_course_applications s uid =
     filter (using_ok course_applications_policies FOR_SELECT s uid) (course_applications s)"

section \<open>Writes\<close>

text \<open>
  A write returns the new store, or the error that aborted the statement; an aborted
  statement leaves the store as it was, which \<open>after\<close> spells out.
\<close>

fun after :: "store \<Rightarrow> error + store \<Rightarrow> store" where
  "after s (Inl e) = s"
| "after s (Inr s') = s'"

subsection \<open>The timestamp trigger\<close>

text \<open>
  \<open>update_updated_at_column\<close> runs \<open>BEFORE UPDATE ... FOR EACH ROW\<close> on three tables
  and sets \<open>NEW.updated_at = now()\<close>; one copy per row type.
\<close>

definition update_profiles_updated_at :: "timestamptz \<Rightarrow> profile \<Rightarrow> profile" where
  "update_profiles_updated_at now NEW = NEW\<lparr>p_updated_at := now\<rparr>"

definition update_courses_updated_at :: "timestamptz \<Rightarrow> course \<Rightarrow> course" where
  "update_courses_updated_at now NEW = NEW\<lparr>c_updated_at := now\<rparr>"

definition update_course_applications_updated_at ::
    "timestamptz \<Rightarrow> course_application \<Rightarrow> course_application" where
  "update_course_applications_updated_at now NEW = NEW\<lparr>a_updated_at := now\<rparr>"

subsection \<open>course\_applications\<close>

text \<open>The \<open>CHECK (status IN ('pending', 'approved', 'rejected'))\<close> of the table.\<close>

definition status_check :: "string \<Rightarrow> bool" where
  "status_check st = (st \<in> set [''pending'', ''approved'', ''rejected''])"

text \<open>
  The insert of \<open>handleApply\<close> names \<open>student_id\<close> and \<open>course_id\<close>; the other columns
  take their defaults. The new row must pass the \<open>INSERT\<close> check, then the \<open>CHECK\<close>
  constraint, the primary key, \<open>UNIQUE(student_id, course_id)\<close> and the foreign keys.
\<close>

definition insert_course_applications ::
    "store \<Rightarrow> uuid option \<Rightarrow> timestamptz \<Rightarrow> uuid \<Rightarrow> uuid \<Rightarrow> uuid \<Rightarrow> error + store" where
  "insert_course_applications s uid now new_id student_id' course_id' =
     (let row = \<lparr>a_id = new_id, a_student_id = student_id', a_course_id = course_id',
                 a_status = ''pending'', a_applied_at = now, a_updated_at = now\<rparr>
      in if \<not> with_check_ok course_applications_policies FOR_INSERT s uid row
           then Inl PolicyDenied
         else if \<not> status_check (a_status row)
           then Inl ConstraintViolation
         else if new_id \<in> set (map a_id (course_applications s))
           then Inl ConstraintViolation
         else if (student_id', course_id')
                   \<in> set (map (\<lambda>r. (a_student_id r, a_course_id r)) (course_applications s))
           then Inl ConstraintViolation
         else if student_id' \<notin> set (auth_users s)
           then Inl ConstraintViolation
         else if course_id' \<notin> set (map c_id (courses s))
           then Inl ConstraintViolation
         else Inr (s\<lparr>course_applications := course_applications s @ [row]\<rparr>))"

text \<open>
  \<open>.update({ status }).eq('id', applicationId)\<close>: the rows with that id which the caller
  may update get the new status, then the trigger's timestamp; the written rows are
  checked against the policies and the \<open>CHECK\<close> constraint. With no row hit nothing is
  checked and nothing fails.
\<close>

definition update_course_applications ::
    "store \<Rightarrow> uuid option \<Rightarrow> timestamptz \<Rightarrow> uuid \<Rightarrow> string \<Rightarrow> error + store" where
  "update_course_applications s uid now application_id status' =
     (let hit = (\<lambda>r. a_id r = application_id
                     \<and> row_visible course_applications_policies FOR_UPDATE s uid r);
          new = (\<lambda>r. update_course_applications_updated_at now (r\<lparr>a_status := status'\<rparr>));
          written = map new (filter hit (course_applications s))
      in if \<exists>r \<in> set written. \<not> new_row_ok course_applications_policies s uid r
           then Inl PolicyDenied
         else if \<exists>r \<in> set written. \<not> status_check (a_status r)
           then Inl ConstraintViolation
         else Inr (s\<lparr>course_applications :=
                       map (\<lambda>r. if hit r then new r else r) (course_applications s)\<rparr>))"

text \<open>
  \<open>.delete().eq('id', applicationId)\<close>: the rows with that id which pass the \<open>DELETE\<close>
  policies are removed; the others stay, and the statement reports no error.
\<close>

definition delete_course_applications :: "store \<Rightarrow> uuid option \<Rightarrow> uuid \<Rightarrow> error + store" where
  "delete_course_applications s uid application_id =
     (let hit = (\<lambda>r. a_id r = application_id
                     \<and> row_visible course_applications_policies FOR_DELETE s uid r)
      in Inr (s\<lparr>course_applications := filter (\<lambda>r. \<not> hit r) (course_applications s)\<rparr>))"

subsection \<open>profiles\<close>

text \<open>The \<open>Profile\<close> object of the student dashboard, sent whole by \<open>.update(profile)\<close>.\<close>

record profile_input =
  in_first_name :: "string option"
  in_last_name :: "string option"
  in_phone :: "string option"

definition update_profiles ::
    "store \<Rightarrow> uuid option \<Rightarrow> timestamptz \<Rightarrow> uuid \<Rightarrow> profile_input \<Rightarrow> error + store" where
  "update_profiles s uid now user_id' inp =
     (let hit = (\<lambda>r. p_user_id r = user_id' \<and> row_visible profiles_policies FOR_UPDATE s uid r);
          new = (\<lambda>r. update_profiles_updated_at now
                       (r\<lparr>p_first_name := in_first_name inp, p_last_name := in_last_name inp,
                          p_phone := in_phone inp\<rparr>));
          written = map new (filter hit (profiles s))
      in if \<exists>r \<in> set written. \<not> new_row_ok profiles_policies s uid r
           then Inl PolicyDenied
         else Inr (s\<lparr>profiles := map (\<lambda>r. if hit r then new r else r) (profiles s)\<rparr>))"

subsection \<open>courses\<close>

text \<open>The fields the admin dashboard sends for a course (\<open>newCourse\<close>, \<open>updateCourse\<close>).\<close>

record course_input =
  in_name :: string
  in_description :: "string option"
  in_duration :: "string option"
  in_availability :: bool
  in_max_students :: "int option"

text \<open>
  \<open>max_students\<close> is an \<open>INTEGER\<close> column: a value outside the 32-bit range is refused
  when a row is written. \<open>parseInt\<close> of the form field can produce such a value; its
  \<open>NaN\<close> is sent as \<open>null\<close>.
\<close>

definition integer_ok :: "int option \<Rightarrow> bool" where
  "integer_ok v = (case v of None \<Rightarrow> True | Some n \<Rightarrow> - 2147483648 \<le> n \<and> n \<le> 2147483647)"

definition insert_courses ::
    "store \<Rightarrow> uuid option \<Rightarrow> timestamptz \<Rightarrow> uuid \<Rightarrow> course_input \<Rightarrow> error + store" where
  "insert_courses s uid now new_id inp =
     (let row = \<lparr>c_id = new_id, c_name = in_name inp, c_description = in_description inp,
                 c_duration = in_duration inp, c_availability = in_availability inp,
                 c_max_students = in_max_students inp, c_created_at = now, c_updated_at = now\<rparr>
      in if \<not> integer_ok (in_max_students inp)
           then Inl NumericValueOutOfRange
         else if \<not> with_check_ok courses_policies FOR_INSERT s uid row
           then Inl PolicyDenied
         else if new_id \<in> set (map c_id (courses s))
           then Inl ConstraintViolation
         else Inr (s\<lparr>courses := courses s @ [row]\<rparr>))"

definition update_courses ::
    "store \<Rightarrow> uuid option \<Rightarrow> timestamptz \<Rightarrow> uuid \<Rightarrow> course_input \<Rightarrow> error + store" where
  "update_courses s uid now course_id' inp =
     (let hit = (\<lambda>r. c_id r = course_id' \<and> row_visible courses_policies FOR_UPDATE s uid r);
          new = (\<lambda>r. update_courses_updated_at now
                       (r\<lparr>c_name := in_name inp, c_description := in_description inp,
                          c_duration := in_duration inp, c_availability := in_availability inp,
                          c_max_students := in_max_students inp\<rparr>));
          written = map new (filter hit (courses s))
      in if written \<noteq> [] \<and> \<not> integer_ok (in_max_students inp)
           then Inl NumericValueOutOfRange
         else if \<exists>r \<in> set written. \<not> new_row_ok courses_policies s uid r
           then Inl PolicyDenied
         else Inr (s\<lparr>courses := map (\<lambda>r. if hit r then new r else r) (courses s)\<rparr>))"

text \<open>
  Deleting a course removes, by \<open>ON DELETE CASCADE\<close>, the applications that refer to it.
\<close>

definition delete_courses :: "store \<Rightarrow> uuid option \<Rightarrow> uuid \<Rightarrow> error + store" where
  "delete_courses s uid course_id' =
     (let hit = (\<lambda>r. c_id r = course_id' \<and> row_visible courses_policies FOR_DELETE s uid r);
          gone = map c_id (filter hit (courses s))
      in Inr (s\<lparr>courses := filter (\<lambda>r. \<not> hit r) (courses s),
                course_applications :=
                  filter (\<lambda>a. a_course_id a \<notin> set gone) (course_applications s)\<rparr>))"

subsection \<open>Provisioning\<close>

text \<open>
  \<open>handle_new_user\<close> is \<open>SECURITY DEFINER\<close>: its two inserts are not subject to the
  policies, only to the constraints of the tables (primary key, \<open>UNIQUE\<close>, foreign key).
  \<open>NEW.raw_user_meta_data ->> 'first_name'\<close> is \<open>NULL\<close> when the key is absent. The
  function has no exception handler, so a failing insert aborts it.
\<close>

definition handle_new_user ::
    "store \<Rightarrow> timestamptz \<Rightarrow> uuid \<Rightarrow> string option \<Rightarrow> string option \<Rightarrow> uuid \<Rightarrow> uuid
       \<Rightarrow> error + store" where
  "handle_new_user s now NEW_id first_name last_name profile_id role_id =
     (let prow = \<lparr>p_id = profile_id, p_user_id = NEW_id, p_first_name = first_name,
                  p_last_name = last_name, p_phone = None, p_avatar_url = None,
                  p_created_at = now, p_updated_at = now\<rparr>
      in if profile_id \<in> set (map p_id (profiles s))
            \<or> NEW_id \<in> set (map p_user_id (profiles s))
            \<or> NEW_id \<notin> set (auth_users s)
           then Inl ConstraintViolation
         else
           (let s1 = s\<lparr>profiles := profiles s @ [prow]\<rparr>;
                rrow = \<lparr>r_id = role_id, r_user_id = NEW_id, r_role = student,
                        r_created_at = now\<rparr>
            in if role_id \<in> set (map r_id (user_roles s1))
                  \<or> (NEW_id, student) \<in> set (map (\<lambda>r. (r_user_id r, r_role r)) (user_roles s1))
                  \<or> NEW_id \<notin> set (auth_users s1)
                 then Inl ConstraintViolation
               else Inr (s1\<lparr>user_roles := user_roles s1 @ [rrow]\<rparr>)))"

text \<open>
  The identity provider inserts the row of \<open>auth.users\<close>; the trigger
  \<open>on_auth_user_created\<close> then runs \<open>handle_new_user\<close> inside the same statement, so
  an error of the trigger aborts the insert of the identity as well.
\<close>

definition insert_auth_users ::
    "store \<Rightarrow> timestamptz \<Rightarrow> uuid \<Rightarrow> string option \<Rightarrow> string option \<Rightarrow> uuid \<Rightarrow> uuid
       \<Rightarrow> error + store" where
  "insert_auth_users s now new_id first_name last_name profile_id role_id =
     (if new_id \<in> set (auth_users s) then Inl ConstraintViolation
      else handle_new_user (s\<lparr>auth_users := auth_users s @ [new_id]\<rparr>)
             now new_id first_name last_name profile_id role_id)"

subsection \<open>Requests and reachable stores\<close>

datatype request =
    Insert_course_applications uuid uuid uuid
  | Update_course_applications uuid string
  | Delete_course_applications uuid
  | Insert_courses uuid course_input
  | Update_courses uuid course_input
  | Delete_courses uuid
  | Update_profiles uuid profile_input
  | Insert_auth_users uuid "string option" "string option" uuid uuid

fun exec :: "store \<Rightarrow> uuid option \<Rightarrow> timestamptz \<Rightarrow> request \<Rightarrow> error + store" where
  "exec s uid now (Insert_course_applications new_id st co) =
     insert_course_applications s uid now new_id st co"
| "exec s uid now (Update_course_applications x status') =
     update_course_applications s uid now x status'"
| "exec s uid now (Delete_course_applications x) = delete_course_applications s uid x"
| "exec s uid now (Insert_courses new_id inp) = insert_courses s uid now new_id inp"
| "exec s uid now (Update_courses x inp) = update_courses s uid now x inp"
| "exec s uid now (Delete_courses x) = delete_courses s uid x"
| "exec s uid now (Update_profiles x inp) = update_profiles s uid now x inp"
| "exec s uid now (Insert_auth_users new_id fn ln pid rid) =
     insert_auth_users s now new_id fn ln pid rid"

text \<open>
  The migration creates \<open>course_applications\<close> empty; every later store is the result
  of a request by some caller at some time.
\<close>

inductive reachable :: "store \<Rightarrow> bool" where
  created: "course_applications s = [] \<Longrightarrow> reachable s"
| request: "reachable s \<Longrightarrow> reachable (after s (exec s uid now req))"

section \<open>The pages\<close>

text \<open>
  A page function returns the toast it shows (its title, and the error whose message
  it displays, if any) and the store after the request.
\<close>

type_synonym toast = "string \<times> error option"

subsection \<open>CourseCard: handleApply\<close>

definition handleApply ::
    "store \<Rightarrow> uuid option \<Rightarrow> timestamptz \<Rightarrow> uuid \<Rightarrow> uuid \<Rightarrow> toast \<times> store" where
  "handleApply s user now new_id course_id' =
     (case user of
        None \<Rightarrow> ((''Authentication Required'', None), s)
      | Some u \<Rightarrow>
          (case insert_course_applications s (Some u) now new_id u course_id' of
             Inl e \<Rightarrow> ((''Application Failed'', Some e), s)
           | Inr s' \<Rightarrow> ((''Application Submitted'', None), s')))"

subsection \<open>StudentDashboard\<close>

definition updateProfile ::
    "store \<Rightarrow> uuid \<Rightarrow> timestamptz \<Rightarrow> profile_input \<Rightarrow> toast \<times> store" where
  "updateProfile s u now inp =
     (case update_profiles s (Some u) now u inp of
        Inl e \<Rightarrow> ((''Update Failed'', Some e), s)
      | Inr s' \<Rightarrow> ((''Profile Updated'', None), s'))"

definition cancelApplication :: "store \<Rightarrow> uuid \<Rightarrow> uuid \<Rightarrow> toast \<times> store" where
  "cancelApplication s u applicationId =
     (case delete_course_applications s (Some u) applicationId of
        Inl e \<Rightarrow> ((''Cancellation Failed'', Some e), s)
      | Inr s' \<Rightarrow> ((''Application Cancelled'', None), s'))"

subsection \<open>AdminDashboard\<close>

definition createCourse ::
    "store \<Rightarrow> uuid \<Rightarrow> timestamptz \<Rightarrow> uuid \<Rightarrow> course_input \<Rightarrow> toast \<times> store" where
  "createCourse s u now new_id newCourse =
     (case insert_courses s (Some u) now new_id newCourse of
        Inl e \<Rightarrow> ((''Creation Failed'', Some e), s)
      | Inr s' \<Rightarrow> ((''Course Created'', None), s'))"

definition updateCourse ::
    "store \<Rightarrow> uuid \<Rightarrow> timestamptz \<Rightarrow> uuid \<Rightarrow> course_input \<Rightarrow> toast \<times> store" where
  "updateCourse s u now course_id' inp =
     (case update_courses s (Some u) now course_id' inp of
        Inl e \<Rightarrow> ((''Update Failed'', Some e), s)
      | Inr s' \<Rightarrow> ((''Course Updated'', None), s'))"

definition deleteCourse :: "store \<Rightarrow> uuid \<Rightarrow> uuid \<Rightarrow> toast \<times> store" where
  "deleteCourse s u courseId =
     (case delete_courses s (Some u) courseId of
        Inl e \<Rightarrow> ((''Deletion Failed'', Some e), s)
      | Inr s' \<Rightarrow> ((''Course Deleted'', None), s'))"

definition updateApplicationStatus ::
    "store \<Rightarrow> uuid \<Rightarrow> timestamptz \<Rightarrow> uuid \<Rightarrow> string \<Rightarrow> toast \<times> store" where
  "updateApplicationStatus s u now applicationId status' =
     (case update_course_applications s (Some u) now applicationId status' of
        Inl e \<Rightarrow> ((''Update Failed'', Some e), s)
      | Inr s' \<Rightarrow> ((''Application Updated'', None), s'))"

subsection \<open>What the workspaces offer\<close>

text \<open>
  The dashboards are used by a signed-in user \<open>u\<close>, whose id is the \<open>auth.uid()\<close> of
  the requests. Applying for a course is a button of the catalog's \<open>CourseCard\<close>, not
  of a dashboard.

  The buttons of the two dashboards, as the actions a signed-in user can start. The
  approve and reject buttons call \<open>updateApplicationStatus\<close> with the literals
  \<open>'approved'\<close> and \<open>'rejected'\<close>; both dashboards render the buttons of an application
  under \<open>application.status === 'pending'\<close>.
\<close>

datatype action =
    UpdateProfile profile_input
  | CancelApplication uuid
  | CreateCourse uuid course_input
  | UpdateCourse uuid course_input
  | DeleteCourse uuid
  | Approve uuid
  | Reject uuid

definition student_buttons :: "course_application \<Rightarrow> action list" where
  "student_buttons application =
     (if a_status application = ''pending'' then [CancelApplication (a_id application)] else [])"

definition admin_buttons :: "course_application \<Rightarrow> action list" where
  "admin_buttons application =
     (if a_status application = ''pending''
      then [Approve (a_id application), Reject (a_id application)] else [])"

fun perform :: "store \<Rightarrow> uuid \<Rightarrow> timestamptz \<Rightarrow> action \<Rightarrow> toast \<times> store" where
  "perform s u now (UpdateProfile inp) = updateProfile s u now inp"
| "perform s u now (CancelApplication x) = cancelApplication s u x"
| "perform s u now (CreateCourse new_id inp) = createCourse s u now new_id inp"
| "perform s u now (UpdateCourse x inp) = updateCourse s u now x inp"
| "perform s u now (DeleteCourse x) = deleteCourse s u x"
| "perform s u now (Approve x) = updateApplicationStatus s u now x ''approved''"
| "perform s u now (Reject x) = updateApplicationStatus s u now x ''rejected''"

text \<open>A session of the workspaces: actions by signed-in users, one after the other.\<close>

fun workspace_run :: "store \<Rightarrow> (uuid \<times> timestamptz \<times> action) list \<Rightarrow> store" where
  "workspace_run s [] = s"
| "workspace_run s ((u, now, act) # rest) = workspace_run (snd (perform s u now act)) rest"

subsection \<open>StudentDashboard: the list of applications\<close>

text \<open>
  \<open>fetchApplications\<close> reads the caller's applications, latest first, each with its
  course embedded: \<open>courses (name, description, duration)\<close>. The embedded course is
  \<open>null\<close> when the caller may not read it. PostgreSQL promises no order among rows
  of equal \<open>applied_at\<close>; here they stay in insertion order.
\<close>

definition fetchApplications ::
    "store \<Rightarrow> uuid \<Rightarrow> (course_application \<times> course option) list" where
  "fetchApplications s u =
     map (\<lambda>a. (a, find (\<lambda>c. c_id c = a_course_id a) (select_courses s (Some u))))
       (sort_key (\<lambda>a. - int (a_applied_at a))
          (filter (\<lambda>a. a_student_id a = u) (select_course_applications s (Some u))))"

text \<open>
  The cards of the list, as the buttons they show. Each card reads
  \<open>application.courses.name\<close>, which throws a \<open>TypeError\<close> on a \<open>null\<close> course and
  ends the render of the page; a card that renders shows \<open>student_buttons\<close>.
\<close>

fun student_cards :: "(course_application \<times> course option) list \<Rightarrow> error + action list" where
  "student_cards [] = Inr []"
| "student_cards ((application, None) # rest) = Inl TypeError"
| "student_cards ((application, Some c) # rest) =
     (case student_cards rest of
        Inl e \<Rightarrow> Inl e
      | Inr acts \<Rightarrow> Inr (student_buttons application @ acts))"

subsection \<open>Index: the catalog filter\<close>

text \<open>
  \<open>String.prototype.toLowerCase\<close> is a built-in of the JavaScript runtime, which
  lower-cases every letter of Unicode; the filter below takes it as its parameter
  \<open>toLowerCase\<close>. \<open>toLowerCase_ascii\<close> is what the built-in does on a string of ASCII
  characters, and serves for the sample data.
\<close>

definition toLowerCase_char :: "char \<Rightarrow> char" where
  "toLowerCase_char c =
     (let n = (of_char c :: nat) in if 65 \<le> n \<and> n \<le> 90 then char_of (n + 32) else c)"

definition toLowerCase_ascii :: "string \<Rightarrow> string" where
  "toLowerCase_ascii str = map toLowerCase_char str"

text \<open>\<open>String.prototype.includes\<close>: the argument occurs at some position of the string.\<close>

fun includes_str :: "string \<Rightarrow> string \<Rightarrow> bool" where
  "includes_str [] t = (t = [])"
| "includes_str (c # str) t = (prefix t (c # str) \<or> includes_str str t)"

text \<open>
  \<open>fetchCourses\<close>: \<open>select('*').eq('availability', true).order('created_at',
  { ascending: false })\<close>. PostgreSQL promises no order among rows of equal
  \<open>created_at\<close>; here they stay in insertion order.
\<close>

definition fetchCourses :: "store \<Rightarrow> uuid option \<Rightarrow> course list" where
  "fetchCourses s uid =
     sort_key (\<lambda>c. - int (c_created_at c))
       (filter (\<lambda>c. c_availability c = True) (select_courses s uid))"

text \<open>
  The predicate of \<open>courses.filter(...)\<close>. \<open>||\<close> evaluates its right operand only when
  the left one is false; \<open>course.description.toLowerCase()\<close> on a \<open>null\<close> description
  throws a \<open>TypeError\<close>, which ends the whole \<open>filter\<close>.
\<close>

definition course_matches :: "(string \<Rightarrow> string) \<Rightarrow> string \<Rightarrow> course \<Rightarrow> error + bool" where
  "course_matches toLowerCase searchTerm course =
     (if includes_str (toLowerCase (c_name course)) (toLowerCase searchTerm) then Inr True
      else (case c_description course of
              None \<Rightarrow> Inl TypeError
            | Some d \<Rightarrow> Inr (includes_str (toLowerCase d) (toLowerCase searchTerm))))"

fun filteredCourses ::
    "(string \<Rightarrow> string) \<Rightarrow> course list \<Rightarrow> string \<Rightarrow> error + course list" where
  "filteredCourses toLowerCase [] searchTerm = Inr []"
| "filteredCourses toLowerCase (course # rest) searchTerm =
     (case course_matches toLowerCase searchTerm course of
        Inl e \<Rightarrow> Inl e
      | Inr keep \<Rightarrow>
          (case filteredCourses toLowerCase rest searchTerm of
             Inl e \<Rightarrow> Inl e
           | Inr kept \<Rightarrow> Inr (if keep then course # kept else kept)))"

section \<open>A sample store\<close>

text \<open>
  Identity 1 is an administrator, 2 and 3 are students. Course 11 is not available,
  course 12 has no description. Student 2 has a pending application, student 3 an
  approved one.
\<close>

definition example_store :: store where
  "example_store =
     \<lparr>auth_users = [1, 2, 3],
      profiles =
        [\<lparr>p_id = 21, p_user_id = 1, p_first_name = Some ''Ada'', p_last_name = None,
          p_phone = None, p_avatar_url = None, p_created_at = 1, p_updated_at = 1\<rparr>,
         \<lparr>p_id = 22, p_user_id = 2, p_first_name = Some ''Sam'', p_last_name = None,
          p_phone = None, p_avatar_url = None, p_created_at = 2, p_updated_at = 2\<rparr>,
         \<lparr>p_id = 23, p_user_id = 3, p_first_name = Some ''Tom'', p_last_name = None,
          p_phone = None, p_avatar_url = None, p_created_at = 3, p_updated_at = 3\<rparr>],
      user_roles =
        [\<lparr>r_id = 31, r_user_id = 1, r_role = student, r_created_at = 1\<rparr>,
         \<lparr>r_id = 32, r_user_id = 1, r_role = admin, r_created_at = 1\<rparr>,
         \<lparr>r_id = 33, r_user_id = 2, r_role = student, r_created_at = 2\<rparr>,
         \<lparr>r_id = 34, r_user_id = 3, r_role = student, r_created_at = 3\<rparr>],
      courses =
        [\<lparr>c_id = 10, c_name = ''Database Management'',
          c_description = Some ''Learn SQL and database design principles'',
          c_duration = Some ''10 weeks'', c_availability = True, c_max_students = Some 50,
          c_created_at = 0, c_updated_at = 0\<rparr>,
         \<lparr>c_id = 11, c_name = ''Drafts'', c_description = Some ''not offered yet'',
          c_duration = None, c_availability = False, c_max_students = Some 50,
          c_created_at = 4, c_updated_at = 4\<rparr>,
         \<lparr>c_id = 12, c_name = ''Math'', c_description = None,
          c_duration = None, c_availability = True, c_max_students = None,
          c_created_at = 5, c_updated_at = 5\<rparr>],
      course_applications =
        [\<lparr>a_id = 100, a_student_id = 2, a_course_id = 10, a_status = ''pending'',
          a_applied_at = 6, a_updated_at = 6\<rparr>,
         \<lparr>a_id = 101, a_student_id = 3, a_course_id = 10, a_status = ''approved'',
          a_applied_at = 7, a_updated_at = 8\<rparr>]\<rparr>"

text \<open>The same store before anyone has applied.\<close>

definition example_store_no_applications :: store where
  "example_store_no_applications = example_store\<lparr>course_applications := []\<rparr>"

section \<open>What each policy set amounts to\<close>

lemma courses_select_iff:
  "using_ok courses_policies FOR_SELECT s uid row \<longleftrightarrow>
     c_availability row \<or> has_role s uid admin"
  by (auto simp: using_ok_def courses_policies_def applies_def)

lemma course_applications_select_iff:
  "using_ok course_applications_policies FOR_SELECT s uid row \<longleftrightarrow>
     uid = Some (a_student_id row) \<or> has_role s uid admin"
  by (auto simp: using_ok_def course_applications_policies_def applies_def)

lemma has_role_None: "has_role s None role' = False"
  by (simp add: has_role_def)

lemma example_admin: "has_role example_store (Some u) admin \<longleftrightarrow> u = 1"
  by (auto simp: has_role_def example_store_def)

lemma courses_select_fun:
  "using_ok courses_policies FOR_SELECT s uid
     = (\<lambda>row. c_availability row \<or> has_role s uid admin)"
  by (rule ext) (simp add: courses_select_iff)

lemma course_applications_select_fun:
  "using_ok course_applications_policies FOR_SELECT s uid
     = (\<lambda>row. uid = Some (a_student_id row) \<or> has_role s uid admin)"
  by (rule ext) (simp add: course_applications_select_iff)

section \<open>Reading courses and applications\<close>

text \<open>
  C4. A caller without the \<open>admin\<close> role reads exactly the courses with
  \<open>availability = true\<close>, and so does the anonymous caller, who has no identity; a
  caller with the \<open>admin\<close> role reads every course.
\<close>

theorem courses_read_policy:
  "(\<not> has_role s uid admin \<longrightarrow> select_courses s uid = filter c_availability (courses s))
   \<and> (has_role s uid admin \<longrightarrow> select_courses s uid = courses s)
   \<and> select_courses s None = filter c_availability (courses s)"
  by (simp add: select_courses_def courses_select_fun has_role_None)

theorem courses_read_policy_witness:
  "\<not> has_role example_store (Some 2) admin
   \<and> map c_id (select_courses example_store (Some 2)) = [10, 12]
   \<and> has_role example_store (Some 1) admin
   \<and> map c_id (select_courses example_store (Some 1)) = [10, 11, 12]"
  using courses_read_policy [of example_store "Some 2"]
        courses_read_policy [of example_store "Some 1"]
  by (simp add: example_admin) (simp add: example_store_def)

text \<open>
  C5. A read of \<open>course_applications\<close> returns exactly the rows whose \<open>student_id\<close>
  is the caller, unless the caller has the \<open>admin\<close> role: then it returns all rows.
\<close>

theorem course_applications_read_policy:
  "(\<not> has_role s uid admin \<longrightarrow>
      select_course_applications s uid
        = filter (\<lambda>row. Some (a_student_id row) = uid) (course_applications s))
   \<and> (has_role s uid admin \<longrightarrow> select_course_applications s uid = course_applications s)"
  by (auto simp: select_course_applications_def course_applications_select_fun
           intro: filter_cong)

theorem course_applications_read_policy_witness:
  "\<not> has_role example_store (Some 2) admin
   \<and> map a_id (select_course_applications example_store (Some 2)) = [100]
   \<and> has_role example_store (Some 1) admin
   \<and> map a_id (select_course_applications example_store (Some 1)) = [100, 101]"
  using course_applications_read_policy [of example_store "Some 2"]
        course_applications_read_policy [of example_store "Some 1"]
  by (simp add: example_admin) (simp add: example_store_def)

section \<open>Writes under the policies\<close>

lemma app_update_visible:
  "row_visible course_applications_policies FOR_UPDATE s uid r \<longleftrightarrow>
     uid = Some (a_student_id r) \<or> has_role s uid admin"
  by (auto simp: row_visible_def using_ok_def course_applications_policies_def applies_def)

lemma app_delete_visible:
  "row_visible course_applications_policies FOR_DELETE s uid r \<longleftrightarrow> has_role s uid admin"
  by (auto simp: row_visible_def using_ok_def course_applications_policies_def applies_def)

lemma app_insert_check:
  "with_check_ok course_applications_policies FOR_INSERT s uid r \<longleftrightarrow>
     uid = Some (a_student_id r) \<or> has_role s uid admin"
  by (auto simp: with_check_ok_def course_applications_policies_def applies_def)

lemma app_new_row_ok:
  "new_row_ok course_applications_policies s uid r \<longleftrightarrow>
     uid = Some (a_student_id r) \<or> has_role s uid admin"
  by (auto simp: new_row_ok_def using_ok_def with_check_ok_def
        course_applications_policies_def applies_def)

lemma profile_update_visible:
  "row_visible profiles_policies FOR_UPDATE s uid r \<longleftrightarrow> uid = Some (p_user_id r)"
  by (auto simp: row_visible_def using_ok_def profiles_policies_def applies_def)

lemma profile_new_row_ok:
  "new_row_ok profiles_policies s uid r \<longleftrightarrow> uid = Some (p_user_id r)"
  by (auto simp: new_row_ok_def using_ok_def with_check_ok_def profiles_policies_def applies_def)

lemma course_update_visible:
  "row_visible courses_policies FOR_UPDATE s uid r \<longleftrightarrow> has_role s uid admin"
  by (auto simp: row_visible_def using_ok_def courses_policies_def applies_def)

lemma course_delete_visible:
  "row_visible courses_policies FOR_DELETE s uid r \<longleftrightarrow> has_role s uid admin"
  by (auto simp: row_visible_def using_ok_def courses_policies_def applies_def)

lemma course_insert_check:
  "with_check_ok courses_policies FOR_INSERT s uid r \<longleftrightarrow> has_role s uid admin"
  by (auto simp: with_check_ok_def courses_policies_def applies_def)

lemma course_new_row_ok:
  "new_row_ok courses_policies s uid r \<longleftrightarrow> has_role s uid admin"
  by (auto simp: new_row_ok_def using_ok_def with_check_ok_def courses_policies_def applies_def)

lemma delete_course_applications_eq:
  "delete_course_applications s uid x =
     Inr (if has_role s uid admin
          then s\<lparr>course_applications := filter (\<lambda>r. a_id r \<noteq> x) (course_applications s)\<rparr>
          else s)"
  by (simp add: delete_course_applications_def app_delete_visible)

lemma update_profiles_eq:
  "update_profiles s uid now x inp =
     Inr (s\<lparr>profiles :=
              map (\<lambda>r. if p_user_id r = x \<and> uid = Some x
                       then r\<lparr>p_first_name := in_first_name inp, p_last_name := in_last_name inp,
                              p_phone := in_phone inp, p_updated_at := now\<rparr>
                       else r) (profiles s)\<rparr>)"
proof -
  have hit: "(\<lambda>r. p_user_id r = x \<and> row_visible profiles_policies FOR_UPDATE s uid r)
               = (\<lambda>r. p_user_id r = x \<and> uid = Some x)"
    by (rule ext) (auto simp: profile_update_visible)
  show ?thesis
    unfolding update_profiles_def Let_def hit
    by (auto simp: profile_new_row_ok update_profiles_updated_at_def)
qed

lemma example_student: "\<not> has_role example_store (Some 2) admin"
  by (simp add: has_role_def example_store_def)

section \<open>Cancelling an application\<close>

text \<open>
  C1. The claim: a student's delete of their own pending application removes the row.
  On the sample store, student 2 owns the pending application 100 and is no
  administrator. The only policy of \<open>course_applications\<close> that covers \<open>DELETE\<close> is
  "Admins can manage all applications", so the delete of \<open>cancelApplication\<close> hits no
  row: the page shows "Application Cancelled" and the store is what it was.
\<close>

theorem cancel_own_pending_application_keeps_row:
  "map (\<lambda>a. (a_id a, a_student_id a, a_status a)) (course_applications example_store)
     = [(100, 2, ''pending''), (101, 3, ''approved'')]
   \<and> has_role example_store (Some 2) admin = False
   \<and> cancelApplication example_store 2 100 = ((''Application Cancelled'', None), example_store)"
  by (simp add: cancelApplication_def delete_course_applications_eq example_student)
     (simp add: example_store_def)

section \<open>Updating a profile\<close>

text \<open>
  Against C2 as stated: identity 1 holds the \<open>admin\<close> role, yet its update of the
  profile of identity 2 changes nothing. The policies give an administrator \<open>SELECT\<close>
  on \<open>profiles\<close> and nothing else.
\<close>

theorem profile_update_by_admin_counterexample:
  "has_role example_store (Some 1) admin
   \<and> map (\<lambda>p. (p_user_id p, p_first_name p)) (profiles example_store)
       = [(1, Some ''Ada''), (2, Some ''Sam''), (3, Some ''Tom'')]
   \<and> update_profiles example_store (Some 1) 9 2
        \<lparr>in_first_name = Some ''Samuel'', in_last_name = None, in_phone = None\<rparr>
      = Inr example_store"
  by (simp add: update_profiles_eq example_admin) (simp add: example_store_def)

text \<open>
  C2, amended. An update of the profile of identity \<open>x\<close> writes the row exactly when
  the caller is \<open>x\<close>; for every other caller, with or without the \<open>admin\<close> role,
  it changes no row and the store stays as it was.
\<close>

theorem profile_update_owner_only:
  "(uid = Some x \<longrightarrow>
      update_profiles s uid now x inp =
        Inr (s\<lparr>profiles :=
                 map (\<lambda>r. if p_user_id r = x
                          then r\<lparr>p_first_name := in_first_name inp,
                                 p_last_name := in_last_name inp,
                                 p_phone := in_phone inp, p_updated_at := now\<rparr>
                          else r) (profiles s)\<rparr>))
   \<and> (uid \<noteq> Some x \<longrightarrow> update_profiles s uid now x inp = Inr s)"
  by (simp add: update_profiles_eq)

theorem profile_update_owner_only_witness:
  "map p_first_name (profiles (after example_store
       (update_profiles example_store (Some 2) 9 2
          \<lparr>in_first_name = Some ''Samuel'', in_last_name = None, in_phone = None\<rparr>)))
     = [Some ''Ada'', Some ''Samuel'', Some ''Tom'']
   \<and> update_profiles example_store (Some 3) 9 2
        \<lparr>in_first_name = Some ''Samuel'', in_last_name = None, in_phone = None\<rparr>
      = Inr example_store"
  using profile_update_owner_only [where uid = "Some 2" and x = 2 and s = example_store
          and now = 9
          and inp = "\<lparr>in_first_name = Some ''Samuel'', in_last_name = None, in_phone = None\<rparr>"]
        profile_update_owner_only [where uid = "Some 3" and x = 2 and s = example_store
          and now = 9
          and inp = "\<lparr>in_first_name = Some ''Samuel'', in_last_name = None, in_phone = None\<rparr>"]
  by (simp add: example_store_def)

section \<open>One application per student and course\<close>

lemma insert_keeps_unique:
  assumes "distinct (map (\<lambda>r. (a_student_id r, a_course_id r)) (course_applications s))"
  shows "distinct (map (\<lambda>r. (a_student_id r, a_course_id r))
           (course_applications (after s (insert_course_applications s uid now new_id st co))))"
  using assms by (auto simp: insert_course_applications_def Let_def)

lemma update_keeps_pairs:
  "map (\<lambda>r. (a_student_id r, a_course_id r))
     (course_applications (after s (update_course_applications s uid now x status')))
   = map (\<lambda>r. (a_student_id r, a_course_id r)) (course_applications s)"
  by (auto simp: update_course_applications_def Let_def
        update_course_applications_updated_at_def)

lemma delete_keeps_unique:
  assumes "distinct (map (\<lambda>r. (a_student_id r, a_course_id r)) (course_applications s))"
  shows "distinct (map (\<lambda>r. (a_student_id r, a_course_id r))
           (course_applications (after s (delete_course_applications s uid x))))"
  using assms by (simp add: delete_course_applications_def Let_def distinct_map_filter)

lemma delete_courses_keeps_unique:
  assumes "distinct (map (\<lambda>r. (a_student_id r, a_course_id r)) (course_applications s))"
  shows "distinct (map (\<lambda>r. (a_student_id r, a_course_id r))
           (course_applications (after s (delete_courses s uid x))))"
  using assms by (simp add: delete_courses_def Let_def distinct_map_filter)

lemma insert_courses_applications:
  "course_applications (after s (insert_courses s uid now new_id inp)) = course_applications s"
  by (simp add: insert_courses_def Let_def)

lemma update_courses_applications:
  "course_applications (after s (update_courses s uid now x inp)) = course_applications s"
  by (simp add: update_courses_def Let_def)

lemma update_profiles_applications:
  "course_applications (after s (update_profiles s uid now x inp)) = course_applications s"
  by (simp add: update_profiles_eq)

lemma insert_auth_users_applications:
  "course_applications (after s (insert_auth_users s now new_id fn ln pid rid))
     = course_applications s"
  by (simp add: insert_auth_users_def handle_new_user_def Let_def)

lemma exec_keeps_unique:
  assumes "distinct (map (\<lambda>r. (a_student_id r, a_course_id r)) (course_applications s))"
  shows "distinct (map (\<lambda>r. (a_student_id r, a_course_id r))
           (course_applications (after s (exec s uid now req))))"
proof (cases req)
  case (Insert_course_applications new_id st co)
  then show ?thesis using insert_keeps_unique [OF assms] by simp
next
  case (Update_course_applications x status')
  then show ?thesis using assms by (simp add: update_keeps_pairs)
next
  case (Delete_course_applications x)
  then show ?thesis using delete_keeps_unique [OF assms] by simp
next
  case (Insert_courses new_id inp)
  then show ?thesis using assms by (simp add: insert_courses_applications)
next
  case (Update_courses x inp)
  then show ?thesis using assms by (simp add: update_courses_applications)
next
  case (Delete_courses x)
  then show ?thesis using delete_courses_keeps_unique [OF assms] by simp
next
  case (Update_profiles x inp)
  then show ?thesis using assms by (simp add: update_profiles_applications)
next
  case (Insert_auth_users new_id fn ln pid rid)
  then show ?thesis using assms by (simp add: insert_auth_users_applications)
qed

lemma reachable_unique:
  "reachable s \<Longrightarrow>
     distinct (map (\<lambda>r. (a_student_id r, a_course_id r)) (course_applications s))"
  by (induction rule: reachable.induct) (simp_all add: exec_keeps_unique)

lemma second_insert_rejected:
  assumes "r \<in> set (course_applications s)"
  shows "insert_course_applications s (Some (a_student_id r)) now new_id
           (a_student_id r) (a_course_id r) = Inl ConstraintViolation"
  using assms by (auto simp: insert_course_applications_def Let_def app_insert_check status_check_def)

lemma second_insert_fails:
  assumes "r \<in> set (course_applications s)"
  shows "\<exists>e. insert_course_applications s uid now new_id (a_student_id r) (a_course_id r) = Inl e"
  using assms by (auto simp: insert_course_applications_def Let_def)

text \<open>
  C3. In every reachable store no two rows of \<open>course_applications\<close> have the same
  \<open>(student_id, course_id)\<close>. Where a row for \<open>(S, C)\<close> exists, a further insert for
  \<open>(S, C)\<close> by \<open>S\<close> fails with \<open>ConstraintViolation\<close>, \<open>handleApply\<close> reports the
  failure, and whoever the caller is the store is left unchanged.
\<close>

theorem one_application_per_student_and_course:
  assumes "reachable s"
  shows "distinct (map (\<lambda>r. (a_student_id r, a_course_id r)) (course_applications s))
    \<and> (\<forall>r \<in> set (course_applications s).
          insert_course_applications s (Some (a_student_id r)) now new_id
            (a_student_id r) (a_course_id r) = Inl ConstraintViolation
        \<and> handleApply s (Some (a_student_id r)) now new_id (a_course_id r)
            = ((''Application Failed'', Some ConstraintViolation), s)
        \<and> (\<forall>uid. after s (insert_course_applications s uid now new_id
                            (a_student_id r) (a_course_id r)) = s))"
proof -
  have "after s (insert_course_applications s uid now new_id (a_student_id r) (a_course_id r)) = s"
    if "r \<in> set (course_applications s)" for r uid
    using second_insert_fails [OF that, of uid now new_id] by auto
  then show ?thesis
    using reachable_unique [OF assms]
    by (simp add: second_insert_rejected handleApply_def)
qed

lemma one_application_store_reachable:
  "reachable (after example_store_no_applications
               (insert_course_applications example_store_no_applications (Some 2) 6 100 2 10))"
proof -
  have "reachable (after example_store_no_applications
          (exec example_store_no_applications (Some 2) 6 (Insert_course_applications 100 2 10)))"
    by (rule reachable.request, rule reachable.created)
       (simp add: example_store_no_applications_def)
  then show ?thesis by simp
qed

theorem one_application_per_student_and_course_witness:
  "course_applications (after example_store_no_applications
      (insert_course_applications example_store_no_applications (Some 2) 6 100 2 10))
     = [\<lparr>a_id = 100, a_student_id = 2, a_course_id = 10, a_status = ''pending'',
          a_applied_at = 6, a_updated_at = 6\<rparr>]
   \<and> insert_course_applications
       (after example_store_no_applications
         (insert_course_applications example_store_no_applications (Some 2) 6 100 2 10))
       (Some 2) 7 102 2 10 = Inl ConstraintViolation"
proof -
  let ?s = "after example_store_no_applications
      (insert_course_applications example_store_no_applications (Some 2) 6 100 2 10)"
  have apps: "course_applications ?s
     = [\<lparr>a_id = 100, a_student_id = 2, a_course_id = 10, a_status = ''pending'',
          a_applied_at = 6, a_updated_at = 6\<rparr>]"
    by (simp add: insert_course_applications_def Let_def app_insert_check status_check_def
          example_store_no_applications_def example_store_def)
  have "r \<in> set (course_applications ?s) \<Longrightarrow>
          insert_course_applications ?s (Some (a_student_id r)) 7 102
            (a_student_id r) (a_course_id r) = Inl ConstraintViolation" for r
    using one_application_per_student_and_course [OF one_application_store_reachable,
            where now = 7 and new_id = 102]
    by blast
  from this [of "\<lparr>a_id = 100, a_student_id = 2, a_course_id = 10, a_status = ''pending'',
          a_applied_at = 6, a_updated_at = 6\<rparr>"]
  show ?thesis
    by (simp add: apps)
qed

section \<open>Provisioning a new identity\<close>

lemma handle_new_user_Inr:
  assumes "handle_new_user s now u fn ln pid rid = Inr s'"
  shows "s' = s\<lparr>profiles := profiles s @
                   [\<lparr>p_id = pid, p_user_id = u, p_first_name = fn, p_last_name = ln,
                     p_phone = None, p_avatar_url = None, p_created_at = now,
                     p_updated_at = now\<rparr>],
                 user_roles := user_roles s @
                   [\<lparr>r_id = rid, r_user_id = u, r_role = student, r_created_at = now\<rparr>]\<rparr>"
    and "u \<notin> set (map p_user_id (profiles s))"
    and "(u, student) \<notin> set (map (\<lambda>r. (r_user_id r, r_role r)) (user_roles s))"
  using assms by (auto simp: handle_new_user_def Let_def split: if_splits)

lemma filter_none: "(\<And>x. x \<in> set xs \<Longrightarrow> \<not> P x) \<Longrightarrow> filter P xs = []"
  by (induction xs) auto

lemma insert_auth_users_Inr:
  assumes "insert_auth_users s now u fn ln pid rid = Inr s'"
  shows "auth_users s' = auth_users s @ [u]"
    and "profiles s' = profiles s @
           [\<lparr>p_id = pid, p_user_id = u, p_first_name = fn, p_last_name = ln,
             p_phone = None, p_avatar_url = None, p_created_at = now, p_updated_at = now\<rparr>]"
    and "user_roles s' = user_roles s @
           [\<lparr>r_id = rid, r_user_id = u, r_role = student, r_created_at = now\<rparr>]"
    and "courses s' = courses s"
    and "course_applications s' = course_applications s"
    and "filter (\<lambda>p. p_user_id p = u) (profiles s) = []"
    and "filter (\<lambda>r. r_user_id r = u \<and> r_role r = student) (user_roles s) = []"
proof -
  from assms have h: "handle_new_user (s\<lparr>auth_users := auth_users s @ [u]\<rparr>)
                        now u fn ln pid rid = Inr s'"
    by (simp add: insert_auth_users_def split: if_splits)
  note facts = handle_new_user_Inr [OF h]
  show "auth_users s' = auth_users s @ [u]" using facts(1) by simp
  show "profiles s' = profiles s @
           [\<lparr>p_id = pid, p_user_id = u, p_first_name = fn, p_last_name = ln,
             p_phone = None, p_avatar_url = None, p_created_at = now, p_updated_at = now\<rparr>]"
    using facts(1) by simp
  show "user_roles s' = user_roles s @
           [\<lparr>r_id = rid, r_user_id = u, r_role = student, r_created_at = now\<rparr>]"
    using facts(1) by simp
  show "courses s' = courses s" using facts(1) by simp
  show "course_applications s' = course_applications s" using facts(1) by simp
  show "filter (\<lambda>p. p_user_id p = u) (profiles s) = []"
    using facts(2) by (intro filter_none) auto
  show "filter (\<lambda>r. r_user_id r = u \<and> r_role r = student) (user_roles s) = []"
    using facts(3) by (intro filter_none) force
qed

lemma insert_auth_users_fresh:
  assumes "u \<notin> set (auth_users s)"
    and "pid \<notin> set (map p_id (profiles s))"
    and "rid \<notin> set (map r_id (user_roles s))"
    and "u \<notin> set (map p_user_id (profiles s))"
    and "u \<notin> set (map r_user_id (user_roles s))"
  shows "\<exists>s'. insert_auth_users s now u fn ln pid rid = Inr s'"
  using assms by (auto simp: insert_auth_users_def handle_new_user_def Let_def)

lemma insert_auth_users_collision:
  assumes "pid \<in> set (map p_id (profiles s)) \<or> rid \<in> set (map r_id (user_roles s))"
  shows "\<exists>e. insert_auth_users s now u fn ln pid rid = Inl e"
  using assms by (auto simp: insert_auth_users_def handle_new_user_def Let_def)

text \<open>
  C6. Let \<open>s'\<close> be the store after the identity provider has tried to create the new
  identity \<open>new_id\<close>. If the identity exists in \<open>s'\<close>, then exactly one profile and
  exactly one role assignment with role \<open>student\<close> exist for it. Either nothing has
  changed, or the identity, its profile and its role were all added. When either
  insert of the trigger fails on a key that is already used, nothing has changed: the
  creation of the identity is aborted. With unused keys and no stale rows for
  \<open>new_id\<close> the creation succeeds.
\<close>

theorem provisioning_is_atomic:
  assumes "new_id \<notin> set (auth_users s)"
    and "s' = after s (insert_auth_users s now new_id fn ln pid rid)"
  shows "(new_id \<in> set (auth_users s') \<longrightarrow>
            length (filter (\<lambda>p. p_user_id p = new_id) (profiles s')) = 1
          \<and> length (filter (\<lambda>r. r_user_id r = new_id \<and> r_role r = student)
                      (user_roles s')) = 1)
    \<and> (s' = s
        \<or> auth_users s' = auth_users s @ [new_id]
          \<and> (\<exists>p. profiles s' = profiles s @ [p] \<and> p_user_id p = new_id
                   \<and> p_first_name p = fn \<and> p_last_name p = ln)
          \<and> (\<exists>r. user_roles s' = user_roles s @ [r] \<and> r_user_id r = new_id
                   \<and> r_role r = student))
    \<and> (pid \<in> set (map p_id (profiles s)) \<or> rid \<in> set (map r_id (user_roles s))
        \<longrightarrow> s' = s)
    \<and> (pid \<notin> set (map p_id (profiles s)) \<and> rid \<notin> set (map r_id (user_roles s))
        \<and> new_id \<notin> set (map p_user_id (profiles s))
        \<and> new_id \<notin> set (map r_user_id (user_roles s))
        \<longrightarrow> (\<exists>s''. insert_auth_users s now new_id fn ln pid rid = Inr s''))"
proof (cases "insert_auth_users s now new_id fn ln pid rid")
  case (Inl e)
  then have "s' = s" using assms(2) by simp
  moreover have "\<not> (pid \<notin> set (map p_id (profiles s)) \<and> rid \<notin> set (map r_id (user_roles s))
        \<and> new_id \<notin> set (map p_user_id (profiles s))
        \<and> new_id \<notin> set (map r_user_id (user_roles s)))"
    using insert_auth_users_fresh [OF assms(1), of pid rid now fn ln] Inl by auto
  ultimately show ?thesis using assms(1) by blast
next
  case (Inr t)
  then have t: "s' = t" using assms(2) by simp
  note facts = insert_auth_users_Inr [OF Inr]
  have one: "length (filter (\<lambda>p. p_user_id p = new_id) (profiles s')) = 1"
    unfolding t facts(2) by (simp add: facts(6))
  have two: "length (filter (\<lambda>r. r_user_id r = new_id \<and> r_role r = student)
                      (user_roles s')) = 1"
    unfolding t facts(3) by (simp add: facts(7))
  have three: "auth_users s' = auth_users s @ [new_id]"
    unfolding t by (rule facts(1))
  have four: "\<exists>p. profiles s' = profiles s @ [p] \<and> p_user_id p = new_id
                   \<and> p_first_name p = fn \<and> p_last_name p = ln"
    unfolding t facts(2) by simp
  have five: "\<exists>r. user_roles s' = user_roles s @ [r] \<and> r_user_id r = new_id
                   \<and> r_role r = student"
    unfolding t facts(3) by simp
  have six: "\<not> (pid \<in> set (map p_id (profiles s)) \<or> rid \<in> set (map r_id (user_roles s)))"
    using insert_auth_users_collision [of pid s rid now new_id fn ln] Inr by auto
  show ?thesis using one two three four five six Inr by blast
qed

theorem provisioning_is_atomic_witness:
  "(4::nat) \<notin> set (auth_users example_store)
   \<and> auth_users (after example_store
        (insert_auth_users example_store 9 4 (Some ''Eve'') None 24 35)) = [1, 2, 3, 4]
   \<and> length (filter (\<lambda>p. p_user_id p = 4) (profiles (after example_store
        (insert_auth_users example_store 9 4 (Some ''Eve'') None 24 35)))) = 1
   \<and> length (filter (\<lambda>r. r_user_id r = 4 \<and> r_role r = student) (user_roles (after example_store
        (insert_auth_users example_store 9 4 (Some ''Eve'') None 24 35)))) = 1
   \<and> (31::nat) \<in> set (map r_id (user_roles example_store))
   \<and> after example_store (insert_auth_users example_store 9 4 (Some ''Eve'') None 24 31)
       = example_store"
proof -
  have new: "(4::nat) \<notin> set (auth_users example_store)"
    by (simp add: example_store_def)
  have users: "auth_users (after example_store
        (insert_auth_users example_store 9 4 (Some ''Eve'') None 24 35)) = [1, 2, 3, 4]"
    by (simp add: insert_auth_users_def handle_new_user_def Let_def example_store_def)
  have used: "(31::nat) \<in> set (map r_id (user_roles example_store))"
    by (simp add: example_store_def)
  have "after example_store (insert_auth_users example_store 9 4 (Some ''Eve'') None 24 31)
       = example_store"
    using provisioning_is_atomic [OF new refl, of 9 "Some ''Eve''" None 24 31] used
    by blast
  then show ?thesis
    using provisioning_is_atomic [OF new refl, of 9 "Some ''Eve''" None 24 35] new users used
    by simp
qed

section \<open>The timestamp of an updated row\<close>

lemma update_courses_Inr:
  assumes "update_courses s uid now x inp = Inr s'"
  shows "s' = s\<lparr>courses :=
              map (\<lambda>r. if c_id r = x \<and> has_role s uid admin
                       then r\<lparr>c_name := in_name inp, c_description := in_description inp,
                              c_duration := in_duration inp,
                              c_availability := in_availability inp,
                              c_max_students := in_max_students inp, c_updated_at := now\<rparr>
                       else r) (courses s)\<rparr>"
proof -
  have hit: "(\<lambda>r. c_id r = x \<and> row_visible courses_policies FOR_UPDATE s uid r)
               = (\<lambda>r. c_id r = x \<and> has_role s uid admin)"
    by (rule ext) (simp add: course_update_visible)
  show ?thesis
    using assms
    unfolding update_courses_def Let_def update_courses_updated_at_def hit
    by (simp split: if_splits)
qed

lemma update_course_applications_Inr:
  assumes "update_course_applications s uid now x st = Inr s'"
  shows "s' = s\<lparr>course_applications :=
                  map (\<lambda>r. if a_id r = x \<and> (uid = Some (a_student_id r) \<or> has_role s uid admin)
                           then r\<lparr>a_status := st, a_updated_at := now\<rparr>
                           else r) (course_applications s)\<rparr>"
  using assms
  unfolding update_course_applications_def Let_def update_course_applications_updated_at_def
  by (auto simp: app_update_visible split: if_splits)

text \<open>
  C7. A successful update of \<open>profiles\<close>, \<open>courses\<close> or \<open>course_applications\<close> at time
  \<open>now\<close> leaves every row it writes with \<open>updated_at = now\<close>; every other row of the
  table, and every row of the other tables, is unchanged.
\<close>

theorem updated_at_refreshed_by_update:
  "(update_profiles s uid now x pin = Inr s1 \<longrightarrow>
      list_all2
        (\<lambda>r r'. if p_user_id r = x \<and> uid = Some x
                 then r' = r\<lparr>p_first_name := in_first_name pin, p_last_name := in_last_name pin,
                              p_phone := in_phone pin, p_updated_at := now\<rparr>
                 else r' = r)
        (profiles s) (profiles s1)
      \<and> courses s1 = courses s \<and> course_applications s1 = course_applications s)
   \<and> (update_courses s uid now y cin = Inr s2 \<longrightarrow>
      list_all2
        (\<lambda>r r'. if c_id r = y \<and> has_role s uid admin
                 then r' = r\<lparr>c_name := in_name cin, c_description := in_description cin,
                              c_duration := in_duration cin,
                              c_availability := in_availability cin,
                              c_max_students := in_max_students cin, c_updated_at := now\<rparr>
                 else r' = r)
        (courses s) (courses s2)
      \<and> profiles s2 = profiles s \<and> course_applications s2 = course_applications s)
   \<and> (update_course_applications s uid now z st = Inr s3 \<longrightarrow>
      list_all2
        (\<lambda>r r'. if a_id r = z \<and> (uid = Some (a_student_id r) \<or> has_role s uid admin)
                 then r' = r\<lparr>a_status := st, a_updated_at := now\<rparr>
                 else r' = r)
        (course_applications s) (course_applications s3)
      \<and> profiles s3 = profiles s \<and> courses s3 = courses s)"
proof (intro conjI impI)
  assume "update_profiles s uid now x pin = Inr s1"
  then have s1: "s1 = s\<lparr>profiles :=
              map (\<lambda>r. if p_user_id r = x \<and> uid = Some x
                       then r\<lparr>p_first_name := in_first_name pin, p_last_name := in_last_name pin,
                              p_phone := in_phone pin, p_updated_at := now\<rparr>
                       else r) (profiles s)\<rparr>"
    by (simp add: update_profiles_eq)
  show "list_all2
        (\<lambda>r r'. if p_user_id r = x \<and> uid = Some x
                 then r' = r\<lparr>p_first_name := in_first_name pin, p_last_name := in_last_name pin,
                              p_phone := in_phone pin, p_updated_at := now\<rparr>
                 else r' = r)
        (profiles s) (profiles s1)"
    unfolding s1 by (simp add: list_all2_map2 list_all2_same)
  show "courses s1 = courses s" unfolding s1 by simp
  show "course_applications s1 = course_applications s" unfolding s1 by simp
next
  assume "update_courses s uid now y cin = Inr s2"
  note s2 = update_courses_Inr [OF this]
  show "list_all2
        (\<lambda>r r'. if c_id r = y \<and> has_role s uid admin
                 then r' = r\<lparr>c_name := in_name cin, c_description := in_description cin,
                              c_duration := in_duration cin,
                              c_availability := in_availability cin,
                              c_max_students := in_max_students cin, c_updated_at := now\<rparr>
                 else r' = r)
        (courses s) (courses s2)"
    unfolding s2 by (simp add: list_all2_map2 list_all2_same)
  show "profiles s2 = profiles s" unfolding s2 by simp
  show "course_applications s2 = course_applications s" unfolding s2 by simp
next
  assume "update_course_applications s uid now z st = Inr s3"
  note s3 = update_course_applications_Inr [OF this]
  show "list_all2
        (\<lambda>r r'. if a_id r = z \<and> (uid = Some (a_student_id r) \<or> has_role s uid admin)
                 then r' = r\<lparr>a_status := st, a_updated_at := now\<rparr>
                 else r' = r)
        (course_applications s) (course_applications s3)"
    unfolding s3 by (auto simp: list_all2_map2 list_all2_same)
  show "profiles s3 = profiles s" unfolding s3 by simp
  show "courses s3 = courses s" unfolding s3 by simp
qed

lemma example_course_update:
  "\<exists>s'. update_courses example_store (Some 1) 9 11
          \<lparr>in_name = ''Drafts'', in_description = None, in_duration = None,
           in_availability = True, in_max_students = None\<rparr> = Inr s'"
  unfolding update_courses_def Let_def
  by (simp add: course_new_row_ok example_admin integer_ok_def)

lemma example_approve:
  "\<exists>s'. update_course_applications example_store (Some 1) 9 100 ''approved'' = Inr s'"
  unfolding update_course_applications_def Let_def
  by (simp add: app_new_row_ok example_admin status_check_def
        update_course_applications_updated_at_def)

theorem updated_at_refreshed_by_update_witness:
  "map p_updated_at (profiles (after example_store
      (update_profiles example_store (Some 2) 9 2
         \<lparr>in_first_name = Some ''Samuel'', in_last_name = None, in_phone = None\<rparr>)))
     = [1, 9, 3]
   \<and> map c_updated_at (courses (after example_store
      (update_courses example_store (Some 1) 9 11
         \<lparr>in_name = ''Drafts'', in_description = None, in_duration = None,
          in_availability = True, in_max_students = None\<rparr>)))
     = [0, 9, 5]
   \<and> map a_updated_at (course_applications (after example_store
      (update_course_applications example_store (Some 1) 9 100 ''approved'')))
     = [9, 8]"
proof -
  let ?pin = "\<lparr>in_first_name = Some ''Samuel'', in_last_name = None, in_phone = None\<rparr>"
  let ?cin = "\<lparr>in_name = ''Drafts'', in_description = None, in_duration = None,
          in_availability = True, in_max_students = None\<rparr>"
  let ?s1 = "after example_store (update_profiles example_store (Some 2) 9 2 ?pin)"
  let ?s2 = "after example_store (update_courses example_store (Some 1) 9 11 ?cin)"
  let ?s3 = "after example_store
               (update_course_applications example_store (Some 1) 9 100 ''approved'')"
  have r1: "update_profiles example_store (Some 2) 9 2 ?pin = Inr ?s1"
    by (simp add: update_profiles_eq)
  have r2: "update_courses example_store (Some 1) 9 11 ?cin = Inr ?s2"
    using example_course_update by auto
  have r3: "update_course_applications example_store (Some 1) 9 100 ''approved'' = Inr ?s3"
    using example_approve by auto
  note th = updated_at_refreshed_by_update [where s = example_store and now = 9]
  have "map p_updated_at (profiles ?s1) = [1, 9, 3]"
    using th [where uid = "Some 2" and x = 2 and pin = ?pin and ?s1.0 = ?s1] r1
    by (auto simp: example_store_def list_all2_Cons1)
  moreover have "map c_updated_at (courses ?s2) = [0, 9, 5]"
    using th [where uid = "Some 1" and y = 11 and cin = ?cin and ?s2.0 = ?s2] r2
    by (auto simp: example_store_def list_all2_Cons1 has_role_def)
  moreover have "map a_updated_at (course_applications ?s3) = [9, 8]"
    using th [where uid = "Some 1" and z = 100 and st = "''approved''" and ?s3.0 = ?s3] r3
    by (auto simp: example_store_def list_all2_Cons1 has_role_def)
  ultimately show ?thesis by simp
qed

section \<open>Decided applications in the workspaces\<close>

lemma snd_toast:
  "snd (case r of Inl e \<Rightarrow> (f e, s) | Inr s' \<Rightarrow> (g, s')) = after s r"
  by (cases r) simp_all

lemma snd_perform:
  "snd (perform s u now act) =
     (case act of
        UpdateProfile inp \<Rightarrow> after s (update_profiles s (Some u) now u inp)
      | CancelApplication x \<Rightarrow> after s (delete_course_applications s (Some u) x)
      | CreateCourse new_id inp \<Rightarrow> after s (insert_courses s (Some u) now new_id inp)
      | UpdateCourse x inp \<Rightarrow> after s (update_courses s (Some u) now x inp)
      | DeleteCourse x \<Rightarrow> after s (delete_courses s (Some u) x)
      | Approve x \<Rightarrow> after s (update_course_applications s (Some u) now x ''approved'')
      | Reject x \<Rightarrow> after s (update_course_applications s (Some u) now x ''rejected''))"
  by (cases act)
     (simp_all add: updateProfile_def cancelApplication_def createCourse_def updateCourse_def
        deleteCourse_def updateApplicationStatus_def snd_toast)

lemma update_keeps_decided:
  assumes "\<forall>r \<in> set (course_applications s).
             a_id r = x \<longrightarrow> a_status r = ''approved'' \<or> a_status r = ''rejected''"
    and "st = ''approved'' \<or> st = ''rejected''"
  shows "\<forall>r \<in> set (course_applications (after s (update_course_applications s uid now y st))).
           a_id r = x \<longrightarrow> a_status r = ''approved'' \<or> a_status r = ''rejected''"
proof (cases "update_course_applications s uid now y st")
  case (Inl e)
  then show ?thesis using assms(1) by simp
next
  case (Inr s')
  show ?thesis
    unfolding Inr after.simps update_course_applications_Inr [OF Inr]
    using assms by auto
qed

lemma delete_keeps_decided:
  assumes "\<forall>r \<in> set (course_applications s).
             a_id r = x \<longrightarrow> a_status r = ''approved'' \<or> a_status r = ''rejected''"
  shows "\<forall>r \<in> set (course_applications (after s (delete_course_applications s uid y))).
           a_id r = x \<longrightarrow> a_status r = ''approved'' \<or> a_status r = ''rejected''"
  using assms by (simp add: delete_course_applications_def Let_def)

lemma delete_courses_keeps_decided:
  assumes "\<forall>r \<in> set (course_applications s).
             a_id r = x \<longrightarrow> a_status r = ''approved'' \<or> a_status r = ''rejected''"
  shows "\<forall>r \<in> set (course_applications (after s (delete_courses s uid y))).
           a_id r = x \<longrightarrow> a_status r = ''approved'' \<or> a_status r = ''rejected''"
  using assms by (simp add: delete_courses_def Let_def)

lemma perform_keeps_decided:
  assumes "\<forall>r \<in> set (course_applications s).
             a_id r = x \<longrightarrow> a_status r = ''approved'' \<or> a_status r = ''rejected''"
  shows "\<forall>r \<in> set (course_applications (snd (perform s u now act))).
           a_id r = x \<longrightarrow> a_status r = ''approved'' \<or> a_status r = ''rejected''"
proof (cases act)
  case (UpdateProfile inp)
  then show ?thesis
    unfolding snd_perform using assms
    by (simp add: update_profiles_applications)
next
  case (CancelApplication y)
  then show ?thesis
    unfolding snd_perform using delete_keeps_decided [OF assms]
    by simp
next
  case (CreateCourse new_id inp)
  then show ?thesis
    unfolding snd_perform using assms
    by (simp add: insert_courses_applications)
next
  case (UpdateCourse y inp)
  then show ?thesis
    unfolding snd_perform using assms
    by (simp add: update_courses_applications)
next
  case (DeleteCourse y)
  then show ?thesis
    unfolding snd_perform using delete_courses_keeps_decided [OF assms]
    by simp
next
  case (Approve y)
  then show ?thesis
    unfolding snd_perform using update_keeps_decided [OF assms, of "''approved''"]
    by simp
next
  case (Reject y)
  then show ?thesis
    unfolding snd_perform using update_keeps_decided [OF assms, of "''rejected''"]
    by simp
qed

lemma workspace_run_keeps_decided:
  assumes "\<forall>r \<in> set (course_applications s).
             a_id r = x \<longrightarrow> a_status r = ''approved'' \<or> a_status r = ''rejected''"
  shows "\<forall>r \<in> set (course_applications (workspace_run s acts)).
           a_id r = x \<longrightarrow> a_status r = ''approved'' \<or> a_status r = ''rejected''"
  using assms
proof (induction acts arbitrary: s)
  case Nil
  then show ?case by simp
next
  case (Cons step acts)
  obtain u now act where step: "step = (u, now, act)"
    by (cases step) auto
  show ?case
    unfolding step workspace_run.simps
    by (rule Cons.IH, rule perform_keeps_decided, rule Cons.prems)
qed

lemma student_cards_hidden_course:
  "student_cards
     (fetchApplications
        (example_store\<lparr>courses := map (\<lambda>c. c\<lparr>c_availability := False\<rparr>)
                                      (courses example_store)\<rparr>) 2)
     = Inl TypeError"
  by code_simp

lemma student_cards_offer_cancel_on_pending:
  assumes "student_cards rows = Inr acts" and "act \<in> set acts"
  shows "\<exists>application c. (application, Some c) \<in> set rows
           \<and> a_status application = ''pending''
           \<and> act = CancelApplication (a_id application)"
  using assms
proof (induction rows arbitrary: acts rule: student_cards.induct)
  case 1
  then show ?case by simp
next
  case (2 application rest)
  then show ?case by simp
next
  case (3 application c rest)
  from "3.prems"(1) obtain more where rest: "student_cards rest = Inr more"
    and acts: "acts = student_buttons application @ more"
    by (auto split: sum.splits)
  from "3.prems"(2) acts consider "act \<in> set (student_buttons application)" | "act \<in> set more"
    by auto
  then show ?case
  proof cases
    case 1
    then show ?thesis by (auto simp: student_buttons_def split: if_splits)
  next
    case 2
    from "3.IH" [OF rest 2] show ?thesis by auto
  qed
qed

text \<open>
  C8. If every application with id \<open>x\<close> is approved or rejected, then after any
  sequence of workspace actions, by any signed-in users, every application with id
  \<open>x\<close> is still approved or rejected, so none is pending. For an application that
  is not pending neither dashboard shows a button, and the buttons shown for a pending
  one are cancel, approve and reject of that application.
\<close>

theorem decided_application_stays_decided:
  assumes "\<forall>r \<in> set (course_applications s).
             a_id r = x \<longrightarrow> a_status r = ''approved'' \<or> a_status r = ''rejected''"
  shows "(\<forall>r \<in> set (course_applications (workspace_run s acts)).
            a_id r = x \<longrightarrow>
              (a_status r = ''approved'' \<or> a_status r = ''rejected'') \<and> a_status r \<noteq> ''pending'')
    \<and> (a_status application \<noteq> ''pending'' \<longrightarrow>
          student_buttons application = [] \<and> admin_buttons application = [])
    \<and> (\<forall>act \<in> set (student_buttons application @ admin_buttons application).
          act \<in> {CancelApplication (a_id application), Approve (a_id application),
                  Reject (a_id application)})"
proof -
  have "a_status r \<noteq> ''pending''" if "a_status r = ''approved'' \<or> a_status r = ''rejected''"
    for r :: course_application
    using that by auto
  then show ?thesis
    using workspace_run_keeps_decided [OF assms, of acts]
    by (auto simp: student_buttons_def admin_buttons_def)
qed

theorem decided_application_stays_decided_witness:
  "map (\<lambda>r. (a_id r, a_status r)) (course_applications example_store)
     = [(100, ''pending''), (101, ''approved'')]
   \<and> map (\<lambda>r. (a_id r, a_status r))
       (course_applications
          (workspace_run example_store [(1, 9, Reject 101), (3, 10, CancelApplication 101)]))
     = [(100, ''pending''), (101, ''rejected'')]
   \<and> a_status (course_applications
          (workspace_run example_store [(1, 9, Reject 101), (3, 10, CancelApplication 101)]) ! 1)
       \<noteq> ''pending''"
proof -
  let ?s = "workspace_run example_store [(1, 9, Reject 101), (3, 10, CancelApplication 101)]"
  have before: "map (\<lambda>r. (a_id r, a_status r)) (course_applications example_store)
     = [(100, ''pending''), (101, ''approved'')]"
    by (simp add: example_store_def)
  have decided: "\<forall>r \<in> set (course_applications example_store).
      a_id r = 101 \<longrightarrow> a_status r = ''approved'' \<or> a_status r = ''rejected''"
    by (simp add: example_store_def)
  have final: "map (\<lambda>r. (a_id r, a_status r)) (course_applications ?s)
     = [(100, ''pending''), (101, ''rejected'')]"
    unfolding workspace_run.simps perform.simps updateApplicationStatus_def
      cancelApplication_def update_course_applications_def Let_def
      update_course_applications_updated_at_def
    by (simp add: app_update_visible app_new_row_ok delete_course_applications_eq
          status_check_def has_role_def example_store_def)
  have "\<forall>r \<in> set (course_applications ?s). a_id r = 101 \<longrightarrow> a_status r \<noteq> ''pending''"
    using decided_application_stays_decided
            [OF decided, of "[(1, 9, Reject 101), (3, 10, CancelApplication 101)]"]
    by blast
  moreover have "course_applications ?s ! 1 \<in> set (course_applications ?s)"
    "a_id (course_applications ?s ! 1) = 101"
    using final by (auto simp: map_eq_Cons_conv)
  ultimately show ?thesis using before final by blast
qed

section \<open>The catalog filter\<close>

lemma includes_str_iff: "includes_str str t \<longleftrightarrow> (\<exists>ps ss. str = ps @ t @ ss)"
proof -
  have "includes_str str t \<longleftrightarrow> sublist t str"
    by (induction str) (simp_all add: sublist_Cons_right)
  then show ?thesis by (simp add: sublist_def)
qed

lemma includes_str_length: "includes_str str t \<Longrightarrow> length t \<le> length str"
  by (auto simp: includes_str_iff)

lemma toLowerCase_ascii_a:
  "toLowerCase_ascii (replicate n (CHR ''a'')) = replicate n (CHR ''a'')"
  by (simp add: toLowerCase_ascii_def toLowerCase_char_def)

lemma no_match_for_long_term:
  assumes "\<And>n. toLowerCase (replicate n (CHR ''a'')) = replicate n (CHR ''a'')"
  shows "\<not> includes_str (toLowerCase str)
             (toLowerCase (replicate (Suc (length (toLowerCase str))) (CHR ''a'')))"
proof
  assume "includes_str (toLowerCase str)
            (toLowerCase (replicate (Suc (length (toLowerCase str))) (CHR ''a'')))"
  from includes_str_length [OF this] show False
    unfolding assms by simp
qed

lemma filteredCourses_Inl_iff:
  "(\<exists>e. filteredCourses toLowerCase cs t = Inl e) \<longleftrightarrow>
     (\<exists>c \<in> set cs. c_description c = None
        \<and> \<not> includes_str (toLowerCase (c_name c)) (toLowerCase t))"
  by (induction cs) (auto simp: course_matches_def split: sum.splits option.splits if_splits)

lemma filteredCourses_error: "filteredCourses toLowerCase cs t = Inl e \<Longrightarrow> e = TypeError"
  by (induction cs arbitrary: e)
     (auto simp: course_matches_def split: sum.splits option.splits if_splits)

lemma filteredCourses_Inr:
  "filteredCourses toLowerCase cs t = Inr kept \<Longrightarrow>
     kept = filter (\<lambda>c. includes_str (toLowerCase (c_name c)) (toLowerCase t)
                       \<or> (\<exists>d. c_description c = Some d
                               \<and> includes_str (toLowerCase d) (toLowerCase t))) cs"
  by (induction cs arbitrary: kept)
     (auto simp: course_matches_def split: sum.splits option.splits if_splits)

lemma fetchCourses_example:
  "fetchCourses example_store None
     = [\<lparr>c_id = 12, c_name = ''Math'', c_description = None,
          c_duration = None, c_availability = True, c_max_students = None,
          c_created_at = 5, c_updated_at = 5\<rparr>,
        \<lparr>c_id = 10, c_name = ''Database Management'',
          c_description = Some ''Learn SQL and database design principles'',
          c_duration = Some ''10 weeks'', c_availability = True, c_max_students = Some 50,
          c_created_at = 0, c_updated_at = 0\<rparr>]"
  by (simp add: fetchCourses_def select_courses_def courses_select_fun has_role_None
        example_store_def)

text \<open>
  C9. The claim: the filter returns exactly the courses whose name or description
  contains the search term, whatever the course list. The anonymous visitor of the
  sample store is shown the courses "Math", which has no description, and "Database
  Management", whose description contains "SQL". Searching for "sql" should return
  the latter; the filter reaches \<open>course.description.toLowerCase()\<close> on "Math" and
  throws.
\<close>

theorem catalog_filter_throws_on_null_description:
  "map (\<lambda>c. (c_id c, c_name c, c_description c)) (fetchCourses example_store None)
     = [(12, ''Math'', None),
        (10, ''Database Management'', Some ''Learn SQL and database design principles'')]
   \<and> filteredCourses toLowerCase_ascii (fetchCourses example_store None) ''sql''
       = Inl TypeError"
  unfolding fetchCourses_example
  by (simp add: course_matches_def toLowerCase_ascii_def toLowerCase_char_def)

lemma insert_courses_null_description:
  assumes "has_role s uid admin" and "new_id \<notin> set (map c_id (courses s))"
    and "integer_ok (in_max_students inp)"
  shows "insert_courses s uid now new_id inp =
           Inr (s\<lparr>courses := courses s @
                  [\<lparr>c_id = new_id, c_name = in_name inp, c_description = in_description inp,
                    c_duration = in_duration inp, c_availability = in_availability inp,
                    c_max_students = in_max_students inp, c_created_at = now,
                    c_updated_at = now\<rparr>]\<rparr>)"
  using assms by (simp add: insert_courses_def Let_def course_insert_check)

lemma set_fetchCourses:
  "set (fetchCourses s uid) = {c \<in> set (courses s). c_availability c}"
  by (auto simp: fetchCourses_def select_courses_def courses_select_fun)

lemma example_new_course_id: "(13::nat) \<notin> set (map c_id (courses example_store))"
  by (simp add: example_store_def)

text \<open>
  Against C10 as stated ("it unconditionally calls \<open>toLowerCase()\<close> on
  \<open>course.description\<close>"): the visitor's list contains "Math", which has no
  description, yet a search for "ma" returns both courses. The name matches, so \<open>||\<close>
  never evaluates the description.
\<close>

theorem catalog_filter_skips_description_counterexample:
  "map (\<lambda>c. (c_name c, c_description c)) (fetchCourses example_store None)
     = [(''Math'', None),
        (''Database Management'', Some ''Learn SQL and database design principles'')]
   \<and> filteredCourses toLowerCase_ascii (fetchCourses example_store None) ''ma''
       = Inr (fetchCourses example_store None)"
  unfolding fetchCourses_example
  by code_simp

text \<open>
  C10, amended. Whatever the lower-casing function, the filter throws for a search
  term exactly when some course of the list has no description and a name that does
  not contain the term; the call on the description is skipped when the name matches.
  When lower-casing leaves strings of the letter a unchanged, as the built-in does, the
  filter returns for every search term exactly when every course has a description.
  The schema permits the case: an administrator's insert of an available course with a
  \<open>NULL\<close> description succeeds, every caller's catalog then holds that course with no
  description, and the filter throws a \<open>TypeError\<close> for every search term that the
  course's name does not contain.
\<close>

theorem catalog_filter_throws_iff_description_reached:
  assumes lower_a: "\<And>n. toLowerCase (replicate n (CHR ''a'')) = replicate n (CHR ''a'')"
  shows "((\<exists>e. filteredCourses toLowerCase cs searchTerm = Inl e) \<longleftrightarrow>
      (\<exists>c \<in> set cs. c_description c = None
         \<and> \<not> (\<exists>ps ss. toLowerCase (c_name c) = ps @ toLowerCase searchTerm @ ss)))
   \<and> ((\<forall>t. \<exists>kept. filteredCourses toLowerCase cs t = Inr kept) \<longleftrightarrow>
        (\<forall>c \<in> set cs. c_description c \<noteq> None))
   \<and> (has_role s uid admin \<and> new_id \<notin> set (map c_id (courses s))
        \<and> integer_ok (in_max_students inp)
        \<and> in_description inp = None \<and> in_availability inp
      \<longrightarrow> (\<exists>s'. insert_courses s uid now new_id inp = Inr s'
            \<and> (\<exists>c \<in> set (fetchCourses s' caller).
                  c_id c = new_id \<and> c_name c = in_name inp \<and> c_description c = None)
            \<and> (\<forall>t. \<not> (\<exists>ps ss. toLowerCase (in_name inp) = ps @ toLowerCase t @ ss)
                   \<longrightarrow> filteredCourses toLowerCase (fetchCourses s' caller) t
                         = Inl TypeError)))"
proof (intro conjI impI)
  show "(\<exists>e. filteredCourses toLowerCase cs searchTerm = Inl e) \<longleftrightarrow>
      (\<exists>c \<in> set cs. c_description c = None
         \<and> \<not> (\<exists>ps ss. toLowerCase (c_name c) = ps @ toLowerCase searchTerm @ ss))"
    by (simp add: filteredCourses_Inl_iff includes_str_iff)
next
  show "(\<forall>t. \<exists>kept. filteredCourses toLowerCase cs t = Inr kept) \<longleftrightarrow>
        (\<forall>c \<in> set cs. c_description c \<noteq> None)"
  proof
    assume total: "\<forall>t. \<exists>kept. filteredCourses toLowerCase cs t = Inr kept"
    show "\<forall>c \<in> set cs. c_description c \<noteq> None"
    proof
      fix c assume c: "c \<in> set cs"
      show "c_description c \<noteq> None"
      proof
        assume none: "c_description c = None"
        let ?t = "replicate (Suc (length (toLowerCase (c_name c)))) (CHR ''a'')"
        have "\<exists>e. filteredCourses toLowerCase cs ?t = Inl e"
          unfolding filteredCourses_Inl_iff
          using c none no_match_for_long_term [of toLowerCase "c_name c", OF lower_a]
          by blast
        then obtain e where "filteredCourses toLowerCase cs ?t = Inl e" ..
        moreover from total obtain kept where "filteredCourses toLowerCase cs ?t = Inr kept"
          by blast
        ultimately show False by simp
      qed
    qed
  next
    assume present: "\<forall>c \<in> set cs. c_description c \<noteq> None"
    show "\<forall>t. \<exists>kept. filteredCourses toLowerCase cs t = Inr kept"
    proof
      fix t
      have "\<not> (\<exists>e. filteredCourses toLowerCase cs t = Inl e)"
        unfolding filteredCourses_Inl_iff using present by blast
      then show "\<exists>kept. filteredCourses toLowerCase cs t = Inr kept"
        by (cases "filteredCourses toLowerCase cs t") auto
    qed
  qed
next
  assume pre: "has_role s uid admin \<and> new_id \<notin> set (map c_id (courses s))
        \<and> integer_ok (in_max_students inp)
        \<and> in_description inp = None \<and> in_availability inp"
  let ?row = "\<lparr>c_id = new_id, c_name = in_name inp, c_description = in_description inp,
                c_duration = in_duration inp, c_availability = in_availability inp,
                c_max_students = in_max_students inp, c_created_at = now,
                c_updated_at = now\<rparr>"
  let ?s' = "s\<lparr>courses := courses s @ [?row]\<rparr>"
  have stored: "insert_courses s uid now new_id inp = Inr ?s'"
    using pre by (simp add: insert_courses_null_description)
  have served: "?row \<in> set (fetchCourses ?s' caller)"
    using pre by (simp add: set_fetchCourses)
  have row: "c_id ?row = new_id \<and> c_name ?row = in_name inp \<and> c_description ?row = None"
    using pre by simp
  have throws: "filteredCourses toLowerCase (fetchCourses ?s' caller) t = Inl TypeError"
    if "\<not> (\<exists>ps ss. toLowerCase (in_name inp) = ps @ toLowerCase t @ ss)" for t
  proof -
    have "\<exists>e. filteredCourses toLowerCase (fetchCourses ?s' caller) t = Inl e"
      unfolding filteredCourses_Inl_iff includes_str_iff
      using served row that by (intro bexI [of _ ?row]) simp_all
    then show ?thesis using filteredCourses_error by blast
  qed
  show "\<exists>s'. insert_courses s uid now new_id inp = Inr s'
            \<and> (\<exists>c \<in> set (fetchCourses s' caller).
                  c_id c = new_id \<and> c_name c = in_name inp \<and> c_description c = None)
            \<and> (\<forall>t. \<not> (\<exists>ps ss. toLowerCase (in_name inp) = ps @ toLowerCase t @ ss)
                   \<longrightarrow> filteredCourses toLowerCase (fetchCourses s' caller) t
                         = Inl TypeError)"
    using stored served row throws by blast
qed

theorem catalog_filter_throws_iff_description_reached_witness:
  "(\<exists>e. filteredCourses toLowerCase_ascii (fetchCourses example_store None) ''sql'' = Inl e)
   \<and> \<not> (\<forall>t. \<exists>kept. filteredCourses toLowerCase_ascii (fetchCourses example_store None) t
                       = Inr kept)
   \<and> (\<forall>t. \<exists>kept. filteredCourses toLowerCase_ascii
                      (filter (\<lambda>c. c_id c = 10) (courses example_store)) t = Inr kept)
   \<and> filteredCourses toLowerCase_ascii
        (fetchCourses
           (after example_store
              (insert_courses example_store (Some 1) 9 13
                 \<lparr>in_name = ''Art'', in_description = None, in_duration = None,
                  in_availability = True, in_max_students = None\<rparr>))
           None)
        ''sql''
       = Inl TypeError"
proof -
  let ?art = "\<lparr>in_name = ''Art'', in_description = None, in_duration = None,
                in_availability = True, in_max_students = None\<rparr>"
  note th = catalog_filter_throws_iff_description_reached
              [of toLowerCase_ascii, OF toLowerCase_ascii_a]
  have math: "\<not> (\<exists>ps ss. toLowerCase_ascii ''Math'' = ps @ toLowerCase_ascii ''sql'' @ ss)"
    unfolding includes_str_iff [symmetric] by code_simp
  have art: "\<not> (\<exists>ps ss. toLowerCase_ascii (in_name ?art) = ps @ toLowerCase_ascii ''sql'' @ ss)"
    unfolding includes_str_iff [symmetric] by code_simp
  have a: "\<exists>e. filteredCourses toLowerCase_ascii (fetchCourses example_store None) ''sql''
               = Inl e"
    using th [of "fetchCourses example_store None" "''sql''"] math
    by (simp add: fetchCourses_example)
  have b: "\<not> (\<forall>t. \<exists>kept. filteredCourses toLowerCase_ascii (fetchCourses example_store None) t
                       = Inr kept)"
    using th [of "fetchCourses example_store None"]
    by (simp add: fetchCourses_example)
  have c: "\<forall>t. \<exists>kept. filteredCourses toLowerCase_ascii
                      (filter (\<lambda>c. c_id c = 10) (courses example_store)) t = Inr kept"
    using th [of "filter (\<lambda>c. c_id c = 10) (courses example_store)"]
    by (simp add: example_store_def)
  have pre: "has_role example_store (Some 1) admin
        \<and> 13 \<notin> set (map c_id (courses example_store))
        \<and> integer_ok (in_max_students ?art)
        \<and> in_description ?art = None \<and> in_availability ?art"
    using example_new_course_id by (simp add: example_admin integer_ok_def)
  from th [where s = example_store and uid = "Some 1" and new_id = 13 and inp = ?art
             and now = 9 and caller = None] pre
  obtain s' where stored: "insert_courses example_store (Some 1) 9 13 ?art = Inr s'"
    and throws: "\<And>t. \<not> (\<exists>ps ss. toLowerCase_ascii (in_name ?art)
                               = ps @ toLowerCase_ascii t @ ss)
                  \<Longrightarrow> filteredCourses toLowerCase_ascii (fetchCourses s' None) t
                        = Inl TypeError"
    by blast
  have d: "filteredCourses toLowerCase_ascii
        (fetchCourses (after example_store
           (insert_courses example_store (Some 1) 9 13 ?art)) None) ''sql'' = Inl TypeError"
    unfolding stored after.simps by (rule throws [OF art])
  from a b c d show ?thesis by blast
qed

end
